theory Spec2Isabelle
  imports Complex_Main
begin

section \<open>Numbers, errors and rounding\<close>

text \<open>
  The training-metrics engine computes on Python floats. They are modelled as exact
  reals, so every statement below is about the arithmetic the source writes down, not
  about binary rounding error. Python exceptions are values: a function that can raise
  returns \<open>py_error + 'a\<close>, with \<open>Inl\<close> the exception.
\<close>

datatype py_error = TypeError | ZeroDivisionError

text \<open>
  Python's \<open>round(x)\<close> rounds to the nearest integer and a tie to the even neighbour;
  \<open>round(x, n)\<close> does the same at the n-th decimal place.
\<close>

definition round_half_even :: "real \<Rightarrow> int" where
  "round_half_even x =
     (let f = \<lfloor>x\<rfloor>; d = x - of_int f
      in if d < 1 / 2 then f
         else if 1 / 2 < d then f + 1
         else if even f then f else f + 1)"

definition py_round :: "nat \<Rightarrow> real \<Rightarrow> real" where
  "py_round ndigits x = of_int (round_half_even (x * 10 ^ ndigits)) / 10 ^ ndigits"

section \<open>TrainingMetrics: training stress score\<close>

text \<open>
  \<open>calculate_tss_from_hr\<close> and \<open>calculate_tss_from_power\<close>. The guard
  \<open>not x or x == 0\<close> is true for \<open>None\<close> and for zero, and for nothing else. The
  duration is \<open>None\<close> when the caller found no moving time; dividing it raises
  \<open>TypeError\<close>.
\<close>

definition calculate_tss_from_hr :: "int option \<Rightarrow> real \<Rightarrow> real option \<Rightarrow> py_error + real" where
  "calculate_tss_from_hr duration_seconds average_hr threshold_hr =
     (case threshold_hr of
        None \<Rightarrow> Inr 0
      | Some t \<Rightarrow>
          if t = 0 then Inr 0
          else (case duration_seconds of
                  None \<Rightarrow> Inl TypeError
                | Some d \<Rightarrow>
                    (let duration_hours = of_int d / 3600;
                         intensity_factor = average_hr / t;
                         tss = duration_hours * intensity_factor * intensity_factor * 100
                     in Inr (py_round 1 tss))))"

definition calculate_tss_from_power :: "int option \<Rightarrow> real \<Rightarrow> int option \<Rightarrow> py_error + real" where
  "calculate_tss_from_power duration_seconds normalized_power ftp =
     (case ftp of
        None \<Rightarrow> Inr 0
      | Some f \<Rightarrow>
          if f = 0 then Inr 0
          else (case duration_seconds of
                  None \<Rightarrow> Inl TypeError
                | Some d \<Rightarrow>
                    (let duration_hours = of_int d / 3600;
                         intensity_factor = normalized_power / of_int f;
                         tss = duration_hours * normalized_power * intensity_factor / of_int f * 100
                     in Inr (py_round 1 tss))))"

section \<open>TrainingMetrics: normalized power\<close>

text \<open>
  \<open>np.convolve(power_array, np.ones(w) / w, mode='valid')\<close> on a series of at least
  \<open>w\<close> samples has one entry per full window: entry \<open>k\<close> is the sum of the \<open>w\<close> samples
  from position \<open>k\<close> on, each multiplied by \<open>1 / w\<close>.
\<close>

definition rolling_avg :: "nat \<Rightarrow> real list \<Rightarrow> real list" where
  "rolling_avg w xs =
     map (\<lambda>k. sum_list (map (\<lambda>x. x * (1 / real w)) (take w (drop k xs))))
         [0 ..< length xs - w + 1]"

text \<open>
  \<open>calculate_normalized_power\<close>. \<open>30 // sampling_interval\<close> is floor division and
  raises \<open>ZeroDivisionError\<close> for interval zero; \<open>np.power(m, 0.25)\<close> of the mean \<open>m\<close>
  of fourth powers is the real fourth root.
\<close>

definition calculate_normalized_power :: "real list \<Rightarrow> int \<Rightarrow> py_error + real" where
  "calculate_normalized_power power_data sampling_interval =
     (if power_data = [] \<or> length power_data < 30 then Inr 0
      else if sampling_interval = 0 then Inl ZeroDivisionError
      else
        (let window_size = (let w = 30 div sampling_interval in if w < 1 then 1 else w);
             ra = rolling_avg (nat window_size) power_data;
             np_value = root 4 (sum_list (map (\<lambda>x. x ^ 4) ra) / real (length ra))
         in Inr (py_round 1 np_value)))"

section \<open>TrainingMetrics: chronic and acute load\<close>

definition CTL_TIME_CONSTANT :: int where
  "CTL_TIME_CONSTANT = 42"

definition ATL_TIME_CONSTANT :: int where
  "ATL_TIME_CONSTANT = 7"

text \<open>
  The \<open>for\<close> loops of \<open>calculate_ctl\<close> and \<open>calculate_atl\<close>: the running value after
  the whole series, before the function rounds it for its caller.
\<close>

definition ctl_loop :: "real \<Rightarrow> real list \<Rightarrow> real" where
  "ctl_loop previous_ctl daily_tss_values =
     foldl (\<lambda>ctl daily_tss. ctl + (daily_tss - ctl) / of_int CTL_TIME_CONSTANT)
           previous_ctl daily_tss_values"

definition atl_loop :: "real \<Rightarrow> real list \<Rightarrow> real" where
  "atl_loop previous_atl daily_tss_values =
     foldl (\<lambda>atl daily_tss. atl + (daily_tss - atl) / of_int ATL_TIME_CONSTANT)
           previous_atl daily_tss_values"

definition calculate_ctl :: "real list \<Rightarrow> real \<Rightarrow> real" where
  "calculate_ctl daily_tss_values previous_ctl = py_round 2 (ctl_loop previous_ctl daily_tss_values)"

definition calculate_atl :: "real list \<Rightarrow> real \<Rightarrow> real" where
  "calculate_atl daily_tss_values previous_atl = py_round 2 (atl_loop previous_atl daily_tss_values)"

definition calculate_tsb :: "real \<Rightarrow> real \<Rightarrow> real" where
  "calculate_tsb ctl atl = py_round 2 (ctl - atl)"

section \<open>TrainingMetrics: time in zones\<close>

record zone =
  min_value :: real
  max_value :: real

text \<open>
  The loop of \<open>calculate_time_in_zones\<close> over \<open>enumerate(zones, start=1)\<close>: the key is
  the position of the zone in the list, the value the number of samples inside the zone
  times the sampling interval.
\<close>

fun zone_loop :: "real list \<Rightarrow> int \<Rightarrow> nat \<Rightarrow> zone list \<Rightarrow> (nat \<rightharpoonup> int) \<Rightarrow> (nat \<rightharpoonup> int)" where
  "zone_loop hr_data sampling_interval i [] zone_times = zone_times"
| "zone_loop hr_data sampling_interval i (z # zs) zone_times =
     zone_loop hr_data sampling_interval (Suc i) zs
       (zone_times(i \<mapsto>
          int (length (filter (\<lambda>h. min_value z \<le> h \<and> h < max_value z) hr_data))
            * sampling_interval))"

definition calculate_time_in_zones :: "real list \<Rightarrow> zone list \<Rightarrow> int \<Rightarrow> (nat \<rightharpoonup> int)" where
  "calculate_time_in_zones hr_data zones sampling_interval =
     (if hr_data = [] \<or> zones = [] then Map.empty
      else zone_loop hr_data sampling_interval 1 zones Map.empty)"

section \<open>TrainingMetrics: FTP estimate\<close>

definition estimate_ftp_from_activity :: "int \<Rightarrow> real \<Rightarrow> real \<Rightarrow> int option" where
  "estimate_ftp_from_activity duration_seconds average_power normalized_power =
     (let duration_minutes = of_int duration_seconds / (60 :: real);
          power = (if normalized_power > 0 then normalized_power else average_power)
      in if power = 0 then None
         else if 4 * 60 \<le> duration_minutes \<and> duration_minutes \<le> 6 * 60
           then Some (round_half_even (power * 0.93))
         else if 18 * 60 \<le> duration_minutes \<and> duration_minutes \<le> 22 * 60
           then Some (round_half_even (power * 0.95))
         else if 50 * 60 \<le> duration_minutes \<and> duration_minutes \<le> 70 * 60
           then Some (round_half_even (power * 1.0))
         else None)"

section \<open>Activity TSS\<close>

text \<open>
  A value read from the activity dictionary: the key may be absent, hold \<open>None\<close>, or
  hold a number. \<open>d.get(k)\<close> and \<open>d.get(k, 0)\<close> differ only for an absent key.
\<close>

datatype 'a entry = Absent | IsNone | Has 'a

record activity_dict =
  d_moving_time :: "int entry"
  d_weighted_average_watts :: "int entry"
  d_average_heartrate :: "real entry"

definition entry_get :: "'a entry \<Rightarrow> 'a option" where
  "entry_get e = (case e of Absent \<Rightarrow> None | IsNone \<Rightarrow> None | Has v \<Rightarrow> Some v)"

definition entry_get_default :: "'a entry \<Rightarrow> 'a \<Rightarrow> 'a option" where
  "entry_get_default e dflt = (case e of Absent \<Rightarrow> Some dflt | IsNone \<Rightarrow> None | Has v \<Rightarrow> Some v)"

text \<open>Python truthiness of an optional number: neither \<open>None\<close> nor zero.\<close>

definition truthy :: "'a::zero option \<Rightarrow> bool" where
  "truthy x = (case x of None \<Rightarrow> False | Some v \<Rightarrow> v \<noteq> 0)"

definition calculate_activity_tss :: "activity_dict \<Rightarrow> int option \<Rightarrow> real option \<Rightarrow> py_error + real" where
  "calculate_activity_tss activity athlete_ftp athlete_threshold_hr =
     (if truthy (entry_get (d_weighted_average_watts activity)) \<and> truthy athlete_ftp then
        calculate_tss_from_power (entry_get_default (d_moving_time activity) 0)
          (of_int (the (entry_get (d_weighted_average_watts activity)))) athlete_ftp
      else if truthy (entry_get (d_average_heartrate activity)) \<and> truthy athlete_threshold_hr then
        calculate_tss_from_hr (entry_get_default (d_moving_time activity) 0)
          (the (entry_get (d_average_heartrate activity))) athlete_threshold_hr
      else
        (case entry_get_default (d_moving_time activity) 0 of
           None \<Rightarrow> Inl TypeError
         | Some m \<Rightarrow>
             (let duration_hours = of_int m / 3600;
                  estimated_tss = duration_hours * 50
              in Inr (py_round 1 estimated_tss))))"

text \<open>
  The part of \<open>_sync_activity\<close> that maps the remote activity's moving time, weighted
  power and heart rate (each kept only when truthy, else stored as \<open>None\<close>) and then
  computes the stored \<open>training_stress_score\<close>. Without an athlete row the score is
  not assigned, which is the result \<open>Inr None\<close>.
\<close>

record athlete =
  ath_ftp :: "int option"
  ath_max_heart_rate :: "int option"

record strava_activity =
  sa_moving_time :: "int option"
  sa_weighted_average_watts :: "int option"
  sa_average_heartrate :: "real option"

definition keep_truthy :: "'a::zero option \<Rightarrow> 'a entry" where
  "keep_truthy x = (case x of None \<Rightarrow> IsNone | Some v \<Rightarrow> if v = 0 then IsNone else Has v)"

definition activity_dict_of :: "strava_activity \<Rightarrow> activity_dict" where
  "activity_dict_of sa =
     \<lparr>d_moving_time = keep_truthy (sa_moving_time sa),
      d_weighted_average_watts = keep_truthy (sa_weighted_average_watts sa),
      d_average_heartrate = keep_truthy (sa_average_heartrate sa)\<rparr>"

definition threshold_hr_of :: "athlete \<Rightarrow> real option" where
  "threshold_hr_of a =
     (if truthy (ath_max_heart_rate a)
      then Some (of_int (the (ath_max_heart_rate a)) * 0.95) else None)"

definition sync_activity_tss :: "athlete option \<Rightarrow> strava_activity \<Rightarrow> py_error + real option" where
  "sync_activity_tss ath sa =
     (case ath of
        None \<Rightarrow> Inr None
      | Some a \<Rightarrow>
          (case calculate_activity_tss (activity_dict_of sa) (ath_ftp a) (threshold_hr_of a) of
             Inl e \<Rightarrow> Inl e
           | Inr v \<Rightarrow> Inr (Some v)))"

section \<open>The store\<close>

text \<open>
  Timestamps are seconds since the epoch and calendar dates are day numbers, so
  \<open>start_date.date()\<close> is division by 86400. The tables are lists of rows in insertion
  order.
\<close>

record activity =
  act_id :: int
  act_athlete_id :: int
  act_start_date :: int
  act_training_stress_score :: "real option"

record training_load =
  tl_athlete_id :: int
  tl_date :: int
  tl_daily_tss :: real
  tl_ctl :: real
  tl_atl :: real
  tl_tsb :: real

record sync_metadata =
  sm_athlete_id :: int
  sm_sync_type :: string
  sm_sync_status :: string
  sm_started_at :: int
  sm_completed_at :: "int option"
  sm_activities_synced :: nat
  sm_streams_synced :: nat
  sm_last_activity_date :: "int option"
  sm_error_message :: "string option"

record db =
  activities :: "activity list"
  training_loads :: "training_load list"
  sync_log :: "sync_metadata list"

definition date_of :: "int \<Rightarrow> int" where
  "date_of start_date = start_date div 86400"

section \<open>SyncManager: training loads\<close>

text \<open>\<open>daily_tss[d] = daily_tss.get(d, 0.0) + tss\<close> on a dictionary kept in insertion order.\<close>

fun dict_add :: "(int \<times> real) list \<Rightarrow> int \<Rightarrow> real \<Rightarrow> (int \<times> real) list" where
  "dict_add [] k v = [(k, 0 + v)]"
| "dict_add ((k', w) # d) k v = (if k' = k then (k', w + v) # d else (k', w) # dict_add d k v)"

fun group_daily_tss :: "activity list \<Rightarrow> (int \<times> real) list \<Rightarrow> (int \<times> real) list" where
  "group_daily_tss [] daily_tss = daily_tss"
| "group_daily_tss (a # as) daily_tss =
     group_daily_tss as
       (dict_add daily_tss (date_of (act_start_date a))
          (case act_training_stress_score a of None \<Rightarrow> 0 | Some t \<Rightarrow> t))"

text \<open>The query for the day's row, and the update of that row or the insert of a new one.\<close>

fun upsert_load :: "int \<Rightarrow> int \<Rightarrow> real \<Rightarrow> real \<Rightarrow> real \<Rightarrow> real \<Rightarrow> training_load list \<Rightarrow> training_load list" where
  "upsert_load aid day v c a b [] =
     [\<lparr>tl_athlete_id = aid, tl_date = day, tl_daily_tss = v, tl_ctl = c, tl_atl = a, tl_tsb = b\<rparr>]"
| "upsert_load aid day v c a b (r # rs) =
     (if tl_athlete_id r = aid \<and> tl_date r = day
      then r\<lparr>tl_daily_tss := v, tl_ctl := c, tl_atl := a, tl_tsb := b\<rparr> # rs
      else r # upsert_load aid day v c a b rs)"

fun loads_loop :: "int \<Rightarrow> (int \<times> real) list \<Rightarrow> real \<Rightarrow> real \<Rightarrow> training_load list \<Rightarrow> training_load list" where
  "loads_loop aid [] current_ctl current_atl loads = loads"
| "loads_loop aid ((day, daily_tss_value) # rest) current_ctl current_atl loads =
     (let ctl' = calculate_ctl [daily_tss_value] current_ctl;
          atl' = calculate_atl [daily_tss_value] current_atl;
          tsb' = calculate_tsb ctl' atl'
      in loads_loop aid rest ctl' atl'
           (upsert_load aid day daily_tss_value ctl' atl' tsb' loads))"

text \<open>The athlete's row with the latest date: \<open>order_by(TrainingLoad.date.desc()).first()\<close>.\<close>

definition previous_load :: "int \<Rightarrow> training_load list \<Rightarrow> training_load option" where
  "previous_load aid loads =
     (case sort_key (\<lambda>r. - tl_date r) (filter (\<lambda>r. tl_athlete_id r = aid) loads) of
        [] \<Rightarrow> None
      | r # _ \<Rightarrow> Some r)"

definition calculate_training_loads :: "int \<Rightarrow> int option \<Rightarrow> db \<Rightarrow> db" where
  "calculate_training_loads aid after_date d =
     (let acts = sort_key act_start_date
                   (filter (\<lambda>a. act_athlete_id a = aid \<and>
                                 (case after_date of None \<Rightarrow> True | Some t \<Rightarrow> t \<le> act_start_date a))
                           (activities d))
      in if acts = [] then d
         else
           (let prev = previous_load aid (training_loads d);
                previous_ctl = (case prev of None \<Rightarrow> 0 | Some r \<Rightarrow> tl_ctl r);
                previous_atl = (case prev of None \<Rightarrow> 0 | Some r \<Rightarrow> tl_atl r);
                daily_tss = group_daily_tss acts []
            in d\<lparr>training_loads :=
                    loads_loop aid (sort_key fst daily_tss) previous_ctl previous_atl
                      (training_loads d)\<rparr>))"

section \<open>SyncManager: full and incremental synchronisation\<close>

text \<open>
  What the collaborators of one sync call do is a parameter: each step either returns or
  raises, and an exception is identified with its message \<open>str(e)\<close>. Fetching and
  upserting activities yields the rows written before the step ended and, when it ended
  by an exception, that exception. The progress callback is \<open>None\<close>.
\<close>

type_synonym 'a outcome = "string + 'a"

record remote =
  r_get_database_session :: "unit outcome"
  r_create_sync_record :: "unit outcome"
  r_sync_athlete_profile :: "unit outcome"
  r_sync_activities :: "int option \<Rightarrow> activity list \<times> string option"
  r_training_loads_query :: "unit outcome"
  r_sync_recent_streams :: "nat outcome"
  r_commit_success :: "unit outcome"
  r_commit_failure :: "unit outcome"
  r_session_close :: "unit outcome"
  r_started_at :: int
  r_completed_at :: int

text \<open>The returned dictionary; a key the branch does not write is \<open>None\<close>.\<close>

record sync_result =
  status :: string
  res_activities_synced :: "nat option"
  res_streams_synced :: "nat option"
  res_duration_seconds :: "int option"
  res_error :: "string option"

fun upsert_activity :: "activity \<Rightarrow> activity list \<Rightarrow> activity list" where
  "upsert_activity a [] = [a]"
| "upsert_activity a (b # bs) = (if act_id b = act_id a then a # bs else b # upsert_activity a bs)"

definition create_sync_record :: "int \<Rightarrow> string \<Rightarrow> string \<Rightarrow> int \<Rightarrow> sync_metadata" where
  "create_sync_record aid sync_type st started =
     \<lparr>sm_athlete_id = aid, sm_sync_type = sync_type, sm_sync_status = st,
      sm_started_at = started, sm_completed_at = None, sm_activities_synced = 0,
      sm_streams_synced = 0, sm_last_activity_date = None, sm_error_message = None\<rparr>"

text \<open>The record of the running call is the last row of the log.\<close>

definition update_sync_record :: "(sync_metadata \<Rightarrow> sync_metadata) \<Rightarrow> db \<Rightarrow> db" where
  "update_sync_record f d =
     (case rev (sync_log d) of
        [] \<Rightarrow> d
      | r # rs \<Rightarrow> d\<lparr>sync_log := rev rs @ [f r]\<rparr>)"

definition get_last_successful_sync :: "int \<Rightarrow> db \<Rightarrow> sync_metadata option" where
  "get_last_successful_sync aid d =
     (case sort_key (\<lambda>r. case sm_completed_at r of None \<Rightarrow> 0 | Some t \<Rightarrow> - t)
             (filter (\<lambda>r. sm_athlete_id r = aid \<and> sm_sync_status r = ''success'') (sync_log d)) of
        [] \<Rightarrow> None
      | r # _ \<Rightarrow> Some r)"

text \<open>
  The \<open>except\<close> branch and the \<open>finally\<close> clause. An exception of the commit in the
  handler, or of closing the session, leaves the call.
\<close>

definition duration_seconds :: "remote \<Rightarrow> int" where
  "duration_seconds env = r_completed_at env - r_started_at env"

definition finally_close :: "remote \<Rightarrow> sync_result outcome \<times> db \<Rightarrow> sync_result outcome \<times> db" where
  "finally_close env res =
     (case r_session_close env of Inl e \<Rightarrow> (Inl e, snd res) | Inr _ \<Rightarrow> res)"

definition sync_failed :: "remote \<Rightarrow> string \<Rightarrow> db \<Rightarrow> sync_result outcome \<times> db" where
  "sync_failed env e d =
     (let d' = update_sync_record
                 (\<lambda>r. r\<lparr>sm_sync_status := ''failed'', sm_error_message := Some e,
                        sm_completed_at := Some (r_completed_at env)\<rparr>) d
      in case r_commit_failure env of
           Inl e' \<Rightarrow> (Inl e', d')
         | Inr _ \<Rightarrow>
             (Inr \<lparr>status = ''failed'', res_activities_synced = None, res_streams_synced = None,
                   res_duration_seconds = None, res_error = Some e\<rparr>, d'))"

definition sync_succeeded :: "remote \<Rightarrow> nat \<Rightarrow> nat \<Rightarrow> db \<Rightarrow> sync_result outcome \<times> db" where
  "sync_succeeded env activities_synced streams_synced d =
     (let d' = update_sync_record
                 (\<lambda>r. r\<lparr>sm_sync_status := ''success'',
                        sm_completed_at := Some (r_completed_at env)\<rparr>) d
      in case r_commit_success env of
           Inl e \<Rightarrow> sync_failed env e d'
         | Inr _ \<Rightarrow>
             (Inr \<lparr>status = ''success'', res_activities_synced = Some activities_synced,
                   res_streams_synced = Some streams_synced,
                   res_duration_seconds = Some (duration_seconds env), res_error = None\<rparr>, d'))"

definition full_sync :: "int \<Rightarrow> remote \<Rightarrow> db \<Rightarrow> sync_result outcome \<times> db" where
  "full_sync aid env d =
     (case r_get_database_session env of
        Inl e \<Rightarrow> (Inl e, d)
      | Inr _ \<Rightarrow>
     (case r_create_sync_record env of
        Inl e \<Rightarrow> (Inl e, d)
      | Inr _ \<Rightarrow>
          (let d0 = d\<lparr>sync_log := sync_log d @
                        [create_sync_record aid ''full'' ''in_progress'' (r_started_at env)]\<rparr>
           in finally_close env
             (case r_sync_athlete_profile env of
                Inl e \<Rightarrow> sync_failed env e d0
              | Inr _ \<Rightarrow>
                  (let (synced, exn) = r_sync_activities env None;
                       d1 = d0\<lparr>activities := fold upsert_activity synced (activities d0)\<rparr>
                   in case exn of
                        Some e \<Rightarrow> sync_failed env e d1
                      | None \<Rightarrow>
                          (let activities_synced = length synced;
                               d2 = update_sync_record
                                      (\<lambda>r. r\<lparr>sm_activities_synced := activities_synced\<rparr>) d1
                           in case r_training_loads_query env of
                                Inl e \<Rightarrow> sync_failed env e d2
                              | Inr _ \<Rightarrow>
                                  (let d3 = calculate_training_loads aid None d2
                                   in case r_sync_recent_streams env of
                                        Inl e \<Rightarrow> sync_failed env e d3
                                      | Inr streams_synced \<Rightarrow>
                                          sync_succeeded env activities_synced streams_synced
                                            (update_sync_record
                                               (\<lambda>r. r\<lparr>sm_streams_synced := streams_synced\<rparr>)
                                               d3))))))))"

definition incremental_sync :: "int \<Rightarrow> remote \<Rightarrow> db \<Rightarrow> sync_result outcome \<times> db" where
  "incremental_sync aid env d =
     (case r_get_database_session env of
        Inl e \<Rightarrow> (Inl e, d)
      | Inr _ \<Rightarrow>
     (case r_create_sync_record env of
        Inl e \<Rightarrow> (Inl e, d)
      | Inr _ \<Rightarrow>
          (let d0 = d\<lparr>sync_log := sync_log d @
                        [create_sync_record aid ''incremental'' ''in_progress'' (r_started_at env)]\<rparr>;
               after_date = (case get_last_successful_sync aid d0 of
                               None \<Rightarrow> None
                             | Some last_sync \<Rightarrow> sm_last_activity_date last_sync);
               (synced, exn) = r_sync_activities env after_date;
               d1 = d0\<lparr>activities := fold upsert_activity synced (activities d0)\<rparr>
           in finally_close env
             (case exn of
                Some e \<Rightarrow> sync_failed env e d1
              | None \<Rightarrow>
                  (let activities_synced = length synced;
                       d2 = update_sync_record
                              (\<lambda>r. r\<lparr>sm_activities_synced := activities_synced\<rparr>) d1
                   in if activities_synced > 0 then
                        (case r_training_loads_query env of
                           Inl e \<Rightarrow> sync_failed env e d2
                         | Inr _ \<Rightarrow>
                             (let d3 = calculate_training_loads aid after_date d2
                              in case r_sync_recent_streams env of
                                   Inl e \<Rightarrow> sync_failed env e d3
                                 | Inr streams_synced \<Rightarrow>
                                     sync_succeeded env activities_synced streams_synced
                                       (update_sync_record
                                          (\<lambda>r. r\<lparr>sm_streams_synced := streams_synced\<rparr>) d3)))
                      else sync_succeeded env activities_synced 0 d2)))))"

text \<open>
  A call ends well when it returns a dictionary whose status is \<open>success\<close>, with the
  two counts, or \<open>failed\<close>, with the error text; it ends badly when an exception leaves
  it.
\<close>

definition structured_result :: "sync_result \<Rightarrow> bool" where
  "structured_result r =
     (status r = ''success'' \<and> res_activities_synced r \<noteq> None \<and> res_streams_synced r \<noteq> None
      \<or> status r = ''failed'' \<and> res_error r \<noteq> None)"

definition returns_structured :: "sync_result outcome \<times> db \<Rightarrow> bool" where
  "returns_structured x = (case fst x of Inl e \<Rightarrow> False | Inr r \<Rightarrow> structured_result r)"

section \<open>StravaClient: the retry wrapper\<close>






section \<open>Concrete inputs\<close>

text \<open>
  An athlete with a ride of TSS 100 on day 1 and another on day 2, a remote service that
  serves a given activity list (only the activities after the bound, when one is
  given) and never fails, an empty store and a fresh client.
\<close>

definition ride_day1 :: activity where
  "ride_day1 = \<lparr>act_id = 1, act_athlete_id = 7, act_start_date = 90000,
                 act_training_stress_score = Some 100\<rparr>"

definition ride_day2 :: activity where
  "ride_day2 = \<lparr>act_id = 2, act_athlete_id = 7, act_start_date = 176400,
                 act_training_stress_score = Some 100\<rparr>"

definition remote_serving :: "activity list \<Rightarrow> remote" where
  "remote_serving acts =
     \<lparr>r_get_database_session = Inr (), r_create_sync_record = Inr (),
      r_sync_athlete_profile = Inr (),
      r_sync_activities =
        (\<lambda>after. (filter (\<lambda>a. case after of None \<Rightarrow> True | Some t \<Rightarrow> t < act_start_date a) acts,
                  None)),
      r_training_loads_query = Inr (), r_sync_recent_streams = Inr 0,
      r_commit_success = Inr (), r_commit_failure = Inr (), r_session_close = Inr (),
      r_started_at = 200000, r_completed_at = 200005\<rparr>"

definition empty_db :: db where
  "empty_db = \<lparr>activities = [], training_loads = [], sync_log = []\<rparr>"


text \<open>The date, CTL and ATL of every stored training-load row.\<close>

definition load_rows :: "db \<Rightarrow> (int \<times> real \<times> real) list" where
  "load_rows d = map (\<lambda>r. (tl_date r, tl_ctl r, tl_atl r)) (training_loads d)"

section \<open>Evaluation rules\<close>

lemmas round_defs = py_round_def round_half_even_def

lemmas load_defs =
  calculate_training_loads_def date_of_def previous_load_def calculate_ctl_def
  calculate_atl_def calculate_tsb_def ctl_loop_def atl_loop_def CTL_TIME_CONSTANT_def
  ATL_TIME_CONSTANT_def round_defs Let_def

lemmas sync_defs =
  full_sync_def incremental_sync_def finally_close_def sync_succeeded_def sync_failed_def
  update_sync_record_def create_sync_record_def get_last_successful_sync_def
  duration_seconds_def

lemmas input_defs = ride_day1_def ride_day2_def remote_serving_def empty_db_def load_rows_def

section \<open>Training stress score with a zero threshold\<close>

text \<open>
  C5, as the source has it. For every duration and every power or heart-rate value,
  \<open>calculate_tss_from_power\<close> and \<open>calculate_tss_from_hr\<close> return 0.0 without raising
  when the FTP (the threshold heart rate) is zero or \<open>None\<close>, even when the duration is
  \<open>None\<close>; in particular \<open>tssFromPower(3600, 200, 0)\<close> and
  \<open>tssFromHeartRate(3600, 150, 0)\<close> are 0. With a numeric duration neither function
  raises, whatever the threshold. The guard tests for zero only: a negative threshold is
  not covered by it.
\<close>

theorem tss_zero_threshold:
  "calculate_tss_from_power d p (Some 0) = Inr 0
   \<and> calculate_tss_from_power d p None = Inr 0
   \<and> calculate_tss_from_hr d h (Some 0) = Inr 0
   \<and> calculate_tss_from_hr d h None = Inr 0
   \<and> calculate_tss_from_power (Some 3600) 200 (Some 0) = Inr 0
   \<and> calculate_tss_from_hr (Some 3600) 150 (Some 0) = Inr 0
   \<and> (\<exists>v. calculate_tss_from_power (Some s) p f = Inr v)
   \<and> (\<exists>v. calculate_tss_from_hr (Some s) h t = Inr v)"
  by (simp add: calculate_tss_from_power_def calculate_tss_from_hr_def Let_def
           split: option.splits)

text \<open>
  C5 as stated fails for a negative threshold: one hour at 200 W with FTP -200, and one
  hour at 150 bpm with threshold -150, both score 100, not 0.
\<close>

theorem tss_negative_threshold_counterexample:
  "calculate_tss_from_power (Some 3600) 200 (Some (- 200)) = Inr 100
   \<and> calculate_tss_from_hr (Some 3600) 150 (Some (- 150)) = Inr 100
   \<and> Inr 100 \<noteq> (Inr 0 :: py_error + real)"
  by (simp add: calculate_tss_from_power_def calculate_tss_from_hr_def round_defs)

section \<open>FTP estimate\<close>

text \<open>
  C3 at concrete durations. The source divides the duration by 60 and then compares the
  minutes with \<open>4 * 60\<close>, \<open>18 * 60\<close> and \<open>50 * 60\<close>, so the windows it accepts are 4 to 6,
  18 to 22 and 50 to 70 hours: an effort of 5, 20 or 60 minutes at 250 W gets no
  estimate, and one of 20 hours gets \<open>round(0.95 * 250) = 238\<close>.
\<close>

theorem estimate_ftp_windows_are_hours:
  "estimate_ftp_from_activity 300 250 250 = None
   \<and> estimate_ftp_from_activity 1200 250 250 = None
   \<and> estimate_ftp_from_activity 3600 250 250 = None
   \<and> estimate_ftp_from_activity 72000 250 250 = Some 238"
  by (simp add: estimate_ftp_from_activity_def round_half_even_def)

section \<open>Seed of the training-load recursion\<close>

text \<open>
  C2 at a concrete store. A first \<open>full_sync\<close> of the ride of day 1 into an empty store
  writes CTL 2.38 and ATL 14.29 for day 1, the values seeded at zero. A second
  \<open>full_sync\<close> of the same remote data takes the stored row of day 1 as the seed and
  overwrites it with CTL 4.7 and ATL 26.53.
\<close>

theorem full_sync_seeded_from_stored_row:
  "load_rows (snd (full_sync 7 (remote_serving [ride_day1]) empty_db)) = [(1, 2.38, 14.29)]
   \<and> load_rows (snd (full_sync 7 (remote_serving [ride_day1])
                  (snd (full_sync 7 (remote_serving [ride_day1]) empty_db))))
       = [(1, 4.7, 26.53)]"
  by (simp add: input_defs sync_defs load_defs)

text \<open>
  C1 at a concrete store. After a \<open>full_sync\<close> of day 1, the athlete rides on day 2 and
  \<open>incremental_sync\<close> runs. The successful sync record carries no last activity date
  (nothing assigns it), so every activity is recomputed, seeded from the stored row of
  day 1: the rows differ on both days from those of a \<open>full_sync\<close> of the two rides.
  The same rows result when the checkpoint is the start of the day-1 ride: the seed is
  the latest stored row, not the row before the checkpoint.
\<close>

theorem incremental_sync_differs_from_full_sync:
  "load_rows (snd (incremental_sync 7 (remote_serving [ride_day1, ride_day2])
                (snd (full_sync 7 (remote_serving [ride_day1]) empty_db))))
     = [(1, 4.7, 26.53), (2, 6.97, 37.03)]
   \<and> load_rows (snd (full_sync 7 (remote_serving [ride_day1, ride_day2]) empty_db))
     = [(1, 2.38, 14.29), (2, 4.7, 26.53)]
   \<and> load_rows (snd (incremental_sync 7 (remote_serving [ride_day1, ride_day2])
                (update_sync_record (\<lambda>r. r\<lparr>sm_last_activity_date := Some 90000\<rparr>)
                   (snd (full_sync 7 (remote_serving [ride_day1]) empty_db)))))
     = [(1, 4.7, 26.53), (2, 6.97, 37.03)]"
  by (simp add: input_defs sync_defs load_defs)

section \<open>Time in zones\<close>

lemma zone_loop_lookup:
  "zone_loop hr_data si i zs m j =
     (if i \<le> j \<and> j < i + length zs
      then Some (int (length (filter (\<lambda>h. min_value (zs ! (j - i)) \<le> h
                                         \<and> h < max_value (zs ! (j - i))) hr_data)) * si)
      else m j)"
proof (induction zs arbitrary: i m)
  case Nil
  show ?case by auto
next
  case (Cons z zs)
  show ?case
  proof (cases "j = i")
    case True
    with Cons.IH [of "Suc i"] show ?thesis by simp
  next
    case False
    then show ?thesis by (auto simp: Cons.IH Suc_diff_le nth_Cons')
  qed
qed

text \<open>
  C6, as the source has it. The time of the zone at position \<open>k + 1\<close> of the declared
  list is the number of samples \<open>h\<close> with \<open>min \<le> h < max\<close> for that zone, times the
  sampling interval: the lower bound is inclusive, the upper one exclusive, and every
  zone is counted on its own. With the zones \<open>[0,120)\<close>, \<open>[120,150)\<close>, \<open>[150,999)\<close> a
  sample of 119 counts toward zone 1 and a sample of 120 toward zone 2.
\<close>

theorem time_in_zones_half_open:
  "(hr_data \<noteq> [] \<and> k < length zones \<longrightarrow>
      calculate_time_in_zones hr_data zones si (Suc k) =
        Some (int (length (filter (\<lambda>h. min_value (zones ! k) \<le> h \<and> h < max_value (zones ! k))
                             hr_data)) * si))
   \<and> calculate_time_in_zones [119]
        [\<lparr>min_value = 0, max_value = 120\<rparr>, \<lparr>min_value = 120, max_value = 150\<rparr>,
         \<lparr>min_value = 150, max_value = 999\<rparr>] 1 = [1 \<mapsto> 1, 2 \<mapsto> 0, 3 \<mapsto> 0]
   \<and> calculate_time_in_zones [120]
        [\<lparr>min_value = 0, max_value = 120\<rparr>, \<lparr>min_value = 120, max_value = 150\<rparr>,
         \<lparr>min_value = 150, max_value = 999\<rparr>] 1 = [1 \<mapsto> 0, 2 \<mapsto> 1, 3 \<mapsto> 0]"
proof -
  have "calculate_time_in_zones hr_data zones si (Suc k) =
        Some (int (length (filter (\<lambda>h. min_value (zones ! k) \<le> h \<and> h < max_value (zones ! k))
                             hr_data)) * si)"
    if "hr_data \<noteq> []" "k < length zones"
  proof -
    from that have "zones \<noteq> []" by auto
    with that show ?thesis
      by (simp add: calculate_time_in_zones_def zone_loop_lookup)
  qed
  moreover have "calculate_time_in_zones [119]
        [\<lparr>min_value = 0, max_value = 120\<rparr>, \<lparr>min_value = 120, max_value = 150\<rparr>,
         \<lparr>min_value = 150, max_value = 999\<rparr>] 1 = [1 \<mapsto> 1, 2 \<mapsto> 0, 3 \<mapsto> 0]"
    by (simp add: calculate_time_in_zones_def numeral_2_eq_2 numeral_3_eq_3)
  moreover have "calculate_time_in_zones [120]
        [\<lparr>min_value = 0, max_value = 120\<rparr>, \<lparr>min_value = 120, max_value = 150\<rparr>,
         \<lparr>min_value = 150, max_value = 999\<rparr>] 1 = [1 \<mapsto> 0, 2 \<mapsto> 1, 3 \<mapsto> 0]"
    by (simp add: calculate_time_in_zones_def numeral_2_eq_2 numeral_3_eq_3)
  ultimately show ?thesis by blast
qed

theorem time_in_zones_half_open_witness:
  "([150 :: real] \<noteq> [] \<and> (1 :: nat) < length [\<lparr>min_value = 0, max_value = 150\<rparr>, \<lparr>min_value = 150, max_value = 200\<rparr>])
   \<and> calculate_time_in_zones [150]
        [\<lparr>min_value = 0, max_value = 150\<rparr>, \<lparr>min_value = 150, max_value = 200\<rparr>] 5 (Suc 1) = Some 5"
  using time_in_zones_half_open
          [of "[150]" 1 "[\<lparr>min_value = 0, max_value = 150\<rparr>, \<lparr>min_value = 150, max_value = 200\<rparr>]" 5]
  by simp

text \<open>
  C6 as stated fails for overlapping zones: with the zones \<open>[0,150)\<close> and \<open>[100,200)\<close> the
  single sample 120 is counted toward zone 1 and toward zone 2, not only toward the first
  zone that contains it.
\<close>

theorem time_in_zones_overlap_counterexample:
  "calculate_time_in_zones [120]
     [\<lparr>min_value = 0, max_value = 150\<rparr>, \<lparr>min_value = 100, max_value = 200\<rparr>] 1
   = [1 \<mapsto> 1, 2 \<mapsto> 1]"
  by (simp add: calculate_time_in_zones_def numeral_2_eq_2)

section \<open>Normalized power\<close>

lemma round_half_even_of_int: "round_half_even (of_int n) = n"
  by (simp add: round_half_even_def)

lemma py_round_tenths: "py_round 1 (real n / 10) = real n / 10"
proof -
  have "round_half_even (real n / 10 * 10 ^ 1) = int n"
    using round_half_even_of_int [of "int n"] by simp
  then show ?thesis by (simp add: py_round_def)
qed

lemma rolling_avg_constant: "rolling_avg 30 (replicate 30 v) = [v]"
  by (simp add: rolling_avg_def sum_list_replicate map_replicate_const)

lemma root4_power4: "root 4 (v ^ 4) = \<bar>v\<bar>"
proof -
  have "root 4 (\<bar>v\<bar> ^ 4) = \<bar>v\<bar>" by (rule real_root_pos2) simp_all
  moreover have "\<bar>v\<bar> ^ 4 = v ^ 4" by simp
  ultimately show ?thesis by simp
qed

lemma normalized_power_constant:
  "calculate_normalized_power (replicate 30 v) 1 = Inr (py_round 1 \<bar>v\<bar>)"
  by (simp add: calculate_normalized_power_def rolling_avg_constant root4_power4)

text \<open>
  C7, as the source has it. A series of fewer than 30 samples (29 in particular) gives
  0.0 at every sampling interval. Thirty samples all equal to \<open>v\<close>, at interval 1, give
  \<open>\<bar>v\<bar>\<close> rounded to one decimal place, which is \<open>v\<close> itself when \<open>v\<close> is a non-negative
  multiple of 0.1.
\<close>

theorem normalized_power_boundary:
  "(length power_data < 30 \<longrightarrow> calculate_normalized_power power_data si = Inr 0)
   \<and> calculate_normalized_power (replicate 29 v) si = Inr 0
   \<and> calculate_normalized_power (replicate 30 v) 1 = Inr (py_round 1 \<bar>v\<bar>)
   \<and> calculate_normalized_power (replicate 30 (real n / 10)) 1 = Inr (real n / 10)"
proof -
  have "\<bar>real n / 10\<bar> = real n / 10" by simp
  then have "calculate_normalized_power (replicate 30 (real n / 10)) 1 = Inr (real n / 10)"
    using normalized_power_constant [of "real n / 10"] by (simp only: py_round_tenths)
  then show ?thesis
    by (simp add: normalized_power_constant) (simp add: calculate_normalized_power_def)
qed

theorem normalized_power_boundary_witness:
  "length (replicate 29 (200 :: real)) < 30
   \<and> calculate_normalized_power (replicate 29 200) 1 = Inr 0
   \<and> calculate_normalized_power (replicate 30 200) 1 = Inr 200"
  using normalized_power_boundary [of "replicate 29 200" 1 200 2000]
  by (simp add: round_defs)

text \<open>
  C7 as stated fails for a constant that is not a multiple of 0.1: thirty samples of
  100.26 W give 100.3, not 100.26.
\<close>

theorem normalized_power_constant_counterexample:
  "calculate_normalized_power (replicate 30 100.26) 1 = Inr 100.3
   \<and> (100.3 :: real) \<noteq> 100.26"
  by (simp add: normalized_power_constant round_defs)

section \<open>Convergence of CTL and ATL under a constant load\<close>

lemma ctl_loop_Suc:
  "ctl_loop s (replicate (Suc n) T) =
     ctl_loop s (replicate n T) + (T - ctl_loop s (replicate n T)) / 42"
proof -
  have "replicate (Suc n) T = replicate n T @ [T]"
    by (simp add: replicate_append_same)
  then show ?thesis
    by (simp only: ctl_loop_def foldl_append) (simp add: CTL_TIME_CONSTANT_def)
qed

lemma atl_loop_Suc:
  "atl_loop s (replicate (Suc n) T) =
     atl_loop s (replicate n T) + (T - atl_loop s (replicate n T)) / 7"
proof -
  have "replicate (Suc n) T = replicate n T @ [T]"
    by (simp add: replicate_append_same)
  then show ?thesis
    by (simp only: atl_loop_def foldl_append) (simp add: ATL_TIME_CONSTANT_def)
qed

lemma ctl_loop_below: "0 < T \<Longrightarrow> ctl_loop 0 (replicate n T) < T"
proof (induction n)
  case 0
  then show ?case by (simp add: ctl_loop_def)
next
  case (Suc n)
  then have "ctl_loop 0 (replicate n T) < T" by simp
  then show ?case unfolding ctl_loop_Suc by (simp add: field_simps)
qed

lemma atl_above_ctl: "0 < T \<Longrightarrow> ctl_loop 0 (replicate n T) \<le> atl_loop 0 (replicate n T)"
proof (induction n)
  case 0
  then show ?case by (simp add: ctl_loop_def atl_loop_def)
next
  case (Suc n)
  then have le: "ctl_loop 0 (replicate n T) \<le> atl_loop 0 (replicate n T)" by simp
  have lt: "ctl_loop 0 (replicate n T) < T" using Suc.prems by (rule ctl_loop_below)
  show ?case unfolding ctl_loop_Suc atl_loop_Suc using le lt by (simp add: field_simps)
qed

lemma ctl_loop_closed_form: "ctl_loop 0 (replicate n T) = T * (1 - (41 / 42) ^ n)"
proof (induction n)
  case 0
  show ?case by (simp add: ctl_loop_def)
next
  case (Suc n)
  show ?case unfolding ctl_loop_Suc Suc.IH by (simp add: field_simps)
qed

lemma ctl_42_days_bounds:
  "(3182.5 :: real) < 100 * (50 * (1 - (41 / 42) ^ 42))
   \<and> 100 * (50 * (1 - (41 / 42) ^ 42)) < (3183.5 :: real)"
  by (simp add: power_divide)

lemma round_half_even_near:
  assumes "of_int k - 1 / 2 < y" and "y < of_int k + 1 / 2"
  shows "round_half_even y = k"
proof -
  have "\<lfloor>y\<rfloor> = k - 1 \<or> \<lfloor>y\<rfloor> = k" using assms by linarith
  then show ?thesis
  proof
    assume "\<lfloor>y\<rfloor> = k - 1"
    with assms show ?thesis by (simp add: round_half_even_def Let_def)
  next
    assume "\<lfloor>y\<rfloor> = k"
    with assms show ?thesis by (simp add: round_half_even_def Let_def)
  qed
qed

lemma ctl_after_42_days: "31.5 < ctl_loop 0 (replicate 42 50)"
  unfolding ctl_loop_closed_form using ctl_42_days_bounds by simp

lemma calculate_ctl_after_42_days: "calculate_ctl (replicate 42 50) 0 = 31.83"
proof -
  have "round_half_even (50 * (1 - (41 / 42) ^ 42) * 10 ^ 2) = 3183"
    using ctl_42_days_bounds by (intro round_half_even_near) (simp_all add: mult.commute)
  then show ?thesis
    by (simp only: calculate_ctl_def ctl_loop_closed_form py_round_def)
qed

lemma atl_loop_below: "0 < T \<Longrightarrow> atl_loop 0 (replicate n T) < T"
proof (induction n)
  case 0
  then show ?case by (simp add: atl_loop_def)
next
  case (Suc n)
  then have "atl_loop 0 (replicate n T) < T" by simp
  then show ?case unfolding atl_loop_Suc by (simp add: field_simps)
qed

lemma round_half_even_mono:
  assumes "x \<le> y"
  shows "round_half_even x \<le> round_half_even y"
proof (cases "\<lfloor>x\<rfloor> = \<lfloor>y\<rfloor>")
  case True
  with assms have "x - of_int \<lfloor>x\<rfloor> \<le> y - of_int \<lfloor>y\<rfloor>" by simp
  with True show ?thesis by (auto simp: round_half_even_def Let_def)
next
  case False
  moreover from assms have "\<lfloor>x\<rfloor> \<le> \<lfloor>y\<rfloor>" by (rule floor_mono)
  ultimately have "\<lfloor>x\<rfloor> + 1 \<le> \<lfloor>y\<rfloor>" by simp
  moreover have "round_half_even x \<le> \<lfloor>x\<rfloor> + 1" by (simp add: round_half_even_def Let_def)
  moreover have "\<lfloor>y\<rfloor> \<le> round_half_even y" by (simp add: round_half_even_def Let_def)
  ultimately show ?thesis by linarith
qed

lemma py_round_mono:
  assumes "x \<le> y"
  shows "py_round k x \<le> py_round k y"
proof -
  from assms have "x * 10 ^ k \<le> y * 10 ^ k" by simp
  then have "round_half_even (x * 10 ^ k) \<le> round_half_even (y * 10 ^ k)"
    by (rule round_half_even_mono)
  then show ?thesis by (simp add: py_round_def divide_right_mono)
qed

lemma ctl_step_between: "c \<le> T \<Longrightarrow> c \<le> ctl_loop c [T] \<and> ctl_loop c [T] \<le> T"
  by (simp add: ctl_loop_def CTL_TIME_CONSTANT_def field_simps)

lemma atl_step_between: "c \<le> T \<Longrightarrow> c \<le> atl_loop c [T] \<and> atl_loop c [T] \<le> T"
  by (simp add: atl_loop_def ATL_TIME_CONSTANT_def field_simps)

text \<open>
  C8, as the source has it. \<open>calculate_ctl\<close> and \<open>calculate_atl\<close> return the value of
  the recursion rounded to two decimals. For a constant daily TSS \<open>T > 0\<close> from seed 0 the
  returned CTL and ATL after \<open>n + 1\<close> days are never below those after \<open>n\<close> days and
  never above \<open>T\<close> rounded to two decimals, and the returned ATL is never below the
  returned CTL. The same holds day by day, as the sync calls the functions: from a
  previous value \<open>c \<le> T\<close> one day of TSS \<open>T\<close> gives a value between \<open>c\<close> and \<open>T\<close>, both
  rounded. After 42 days of TSS 50 the returned CTL is 31.83, above 31.5.
\<close>

theorem ctl_atl_rounded_convergence:
  assumes "0 < T"
  shows "calculate_ctl (replicate n T) 0 \<le> calculate_ctl (replicate (Suc n) T) 0
         \<and> calculate_atl (replicate n T) 0 \<le> calculate_atl (replicate (Suc n) T) 0
         \<and> calculate_ctl (replicate n T) 0 \<le> py_round 2 T
         \<and> calculate_atl (replicate n T) 0 \<le> py_round 2 T
         \<and> calculate_ctl (replicate n T) 0 \<le> calculate_atl (replicate n T) 0
         \<and> (c \<le> T \<longrightarrow>
               py_round 2 c \<le> calculate_ctl [T] c \<and> calculate_ctl [T] c \<le> py_round 2 T
               \<and> py_round 2 c \<le> calculate_atl [T] c \<and> calculate_atl [T] c \<le> py_round 2 T)
         \<and> calculate_ctl (replicate 42 50) 0 = 31.83
         \<and> 31.5 < calculate_ctl (replicate 42 50) 0"
proof -
  have cb: "ctl_loop 0 (replicate n T) < T" using assms by (rule ctl_loop_below)
  have ab: "atl_loop 0 (replicate n T) < T" using assms by (rule atl_loop_below)
  have "ctl_loop 0 (replicate n T) \<le> ctl_loop 0 (replicate (Suc n) T)"
    unfolding ctl_loop_Suc using cb by simp
  then have c1: "calculate_ctl (replicate n T) 0 \<le> calculate_ctl (replicate (Suc n) T) 0"
    unfolding calculate_ctl_def by (rule py_round_mono)
  have "atl_loop 0 (replicate n T) \<le> atl_loop 0 (replicate (Suc n) T)"
    unfolding atl_loop_Suc using ab by simp
  then have c2: "calculate_atl (replicate n T) 0 \<le> calculate_atl (replicate (Suc n) T) 0"
    unfolding calculate_atl_def by (rule py_round_mono)
  have c3: "calculate_ctl (replicate n T) 0 \<le> py_round 2 T"
    unfolding calculate_ctl_def using cb by (intro py_round_mono) simp
  have c4: "calculate_atl (replicate n T) 0 \<le> py_round 2 T"
    unfolding calculate_atl_def using ab by (intro py_round_mono) simp
  have c5: "calculate_ctl (replicate n T) 0 \<le> calculate_atl (replicate n T) 0"
    unfolding calculate_ctl_def calculate_atl_def
    using atl_above_ctl [OF assms] by (rule py_round_mono)
  have c6: "py_round 2 c \<le> calculate_ctl [T] c \<and> calculate_ctl [T] c \<le> py_round 2 T
            \<and> py_round 2 c \<le> calculate_atl [T] c \<and> calculate_atl [T] c \<le> py_round 2 T"
    if "c \<le> T"
    unfolding calculate_ctl_def calculate_atl_def
    using ctl_step_between [OF that] atl_step_between [OF that]
    by (auto intro: py_round_mono)
  have c7: "(31.5 :: real) < calculate_ctl (replicate 42 50) 0"
    by (simp add: calculate_ctl_after_42_days)
  from c1 c2 c3 c4 c5 c6 c7 calculate_ctl_after_42_days show ?thesis by blast
qed

theorem ctl_atl_rounded_convergence_witness:
  "(0 :: real) < 50 \<and> (49.8 :: real) \<le> 50
   \<and> calculate_ctl (replicate 1 50) 0 \<le> calculate_ctl (replicate (Suc 1) 50) 0
   \<and> calculate_ctl (replicate 1 50) 0 \<le> calculate_atl (replicate 1 50) 0
   \<and> calculate_ctl (replicate 1 50) 0 \<le> py_round 2 50
   \<and> py_round 2 49.8 \<le> calculate_ctl [50] 49.8
   \<and> calculate_ctl [50] 49.8 \<le> py_round 2 50"
  using ctl_atl_rounded_convergence [of 50 1 "49.8"] by simp

text \<open>
  C8 as stated fails for the values the functions return: with a daily TSS of 0.1 the
  CTL after one day is 0.0, as it is after no day, and one day of TSS 50 from a CTL of
  49.8 gives 49.8 again. The sequence is not strictly increasing.
\<close>

theorem ctl_not_strictly_increasing_counterexample:
  "calculate_ctl (replicate 0 0.1) 0 = 0 \<and> calculate_ctl (replicate (Suc 0) 0.1) 0 = 0
   \<and> calculate_ctl [50] 49.8 = 49.8
   \<and> \<not> calculate_ctl (replicate 0 0.1) 0 < calculate_ctl (replicate (Suc 0) 0.1) 0"
  by (simp add: calculate_ctl_def ctl_loop_def CTL_TIME_CONSTANT_def round_defs)

section \<open>Duration estimate of the activity TSS\<close>

lemma duration_estimate_positive:
  assumes "4 \<le> (m :: int)"
  shows "1 / 10 \<le> py_round 1 (of_int m / 3600 * 50)"
proof -
  let ?x = "real_of_int m / 3600 * 50 * 10 ^ 1"
  have x: "1 / 2 < ?x" using assms by simp
  have "1 \<le> round_half_even ?x"
  proof (cases "\<lfloor>?x\<rfloor> \<ge> 1")
    case True
    then show ?thesis by (auto simp: round_half_even_def Let_def)
  next
    case False
    moreover have "0 \<le> \<lfloor>?x\<rfloor>" using x by (simp add: le_floor_iff)
    ultimately have f: "\<lfloor>?x\<rfloor> = 0" by linarith
    with x show ?thesis by (simp add: round_half_even_def Let_def)
  qed
  then have "1 \<le> real_of_int (round_half_even ?x)" by simp
  then show ?thesis by (simp add: py_round_def)
qed

text \<open>
  C10, as the source has it. When the activity has no usable power data and no usable
  heart-rate data and its moving time is a number \<open>m\<close>, \<open>calculate_activity_tss\<close>
  returns \<open>round(m / 3600 * 50, 1)\<close> and raises nothing; the value is at least 0.1 when
  \<open>m\<close> is 4 seconds or more. For the dictionary that \<open>_sync_activity\<close> builds, this value
  is the stored \<open>training_stress_score\<close>, and the daily TSS of the training-load series
  adds it.
\<close>

theorem activity_tss_duration_estimate:
  assumes "\<not> (truthy (entry_get (d_weighted_average_watts act)) \<and> truthy ftp)"
      and "\<not> (truthy (entry_get (d_average_heartrate act)) \<and> truthy thr)"
      and "entry_get_default (d_moving_time act) 0 = Some m"
  shows "calculate_activity_tss act ftp thr = Inr (py_round 1 (of_int m / 3600 * 50))
         \<and> (4 \<le> m \<longrightarrow> 1 / 10 \<le> py_round 1 (of_int m / 3600 * 50))
         \<and> (act = activity_dict_of sa \<and> ftp = ath_ftp a \<and> thr = threshold_hr_of a \<longrightarrow>
              sync_activity_tss (Some a) sa = Inr (Some (py_round 1 (of_int m / 3600 * 50))))
         \<and> group_daily_tss [x\<lparr>act_training_stress_score := Some (py_round 1 (of_int m / 3600 * 50))\<rparr>] []
             = [(date_of (act_start_date x), 0 + py_round 1 (of_int m / 3600 * 50))]"
proof -
  have est: "calculate_activity_tss act ftp thr = Inr (py_round 1 (of_int m / 3600 * 50))"
    using assms by (auto simp: calculate_activity_tss_def)
  then have "sync_activity_tss (Some a) sa = Inr (Some (py_round 1 (of_int m / 3600 * 50)))"
    if "act = activity_dict_of sa \<and> ftp = ath_ftp a \<and> thr = threshold_hr_of a"
    using that by (simp add: sync_activity_tss_def)
  with est duration_estimate_positive [of m] show ?thesis by simp
qed

theorem activity_tss_duration_estimate_witness:
  "calculate_activity_tss
     (activity_dict_of \<lparr>sa_moving_time = Some 3600, sa_weighted_average_watts = None,
                        sa_average_heartrate = Some 140\<rparr>) (Some 250) None = Inr 50
   \<and> sync_activity_tss (Some \<lparr>ath_ftp = Some 250, ath_max_heart_rate = None\<rparr>)
        \<lparr>sa_moving_time = Some 3600, sa_weighted_average_watts = None,
         sa_average_heartrate = Some 140\<rparr> = Inr (Some 50)
   \<and> group_daily_tss [ride_day1\<lparr>act_training_stress_score := Some 50\<rparr>] [] = [(1, 50)]"
proof -
  let ?sa = "\<lparr>sa_moving_time = Some 3600, sa_weighted_average_watts = None,
              sa_average_heartrate = Some (140 :: real)\<rparr>"
  let ?a = "\<lparr>ath_ftp = Some 250, ath_max_heart_rate = None\<rparr>"
  have r: "py_round 1 (real_of_int 3600 / 3600 * 50) = 50" by (simp add: round_defs)
  have d: "date_of (act_start_date ride_day1) = 1" by (simp add: date_of_def ride_day1_def)
  have h1: "\<not> (truthy (entry_get (d_weighted_average_watts (activity_dict_of ?sa))) \<and> truthy (Some (250 :: int)))"
    by (simp add: activity_dict_of_def keep_truthy_def entry_get_def truthy_def)
  have h2: "\<not> (truthy (entry_get (d_average_heartrate (activity_dict_of ?sa))) \<and> truthy (None :: real option))"
    by (simp add: truthy_def)
  have h3: "entry_get_default (d_moving_time (activity_dict_of ?sa)) 0 = Some 3600"
    by (simp add: activity_dict_of_def keep_truthy_def entry_get_default_def)
  have h4: "threshold_hr_of ?a = None" by (simp add: threshold_hr_of_def truthy_def)
  show ?thesis
    using activity_tss_duration_estimate [OF h1 h2 h3, of ?sa ?a ride_day1] r d h4 by simp
qed

text \<open>
  C10 as stated fails for a short activity: a moving time of one second, which is not
  zero, gives the estimate 0.0.
\<close>

theorem activity_tss_short_counterexample:
  "calculate_activity_tss
     \<lparr>d_moving_time = Has 1, d_weighted_average_watts = IsNone, d_average_heartrate = IsNone\<rparr>
     None None = Inr 0"
  by (simp add: calculate_activity_tss_def truthy_def entry_get_def entry_get_default_def round_defs)

section \<open>Token refresh in the retry wrapper\<close>









section \<open>The result of a sync call\<close>

lemma sync_failed_returns:
  assumes "r_commit_failure env = Inr ()"
  shows "returns_structured (sync_failed env e d)"
  using assms by (simp add: sync_failed_def returns_structured_def structured_result_def Let_def)

lemma sync_succeeded_returns:
  assumes "r_commit_failure env = Inr ()"
  shows "returns_structured (sync_succeeded env n k d)"
proof (cases "r_commit_success env")
  case (Inl e)
  with sync_failed_returns [OF assms] show ?thesis
    by (simp add: sync_succeeded_def Let_def)
next
  case (Inr u)
  then show ?thesis
    by (simp add: sync_succeeded_def returns_structured_def structured_result_def Let_def)
qed

lemma finally_close_returns:
  assumes "r_session_close env = Inr ()"
  shows "returns_structured (finally_close env x) = returns_structured x"
  using assms by (simp add: finally_close_def)

lemma full_sync_returns:
  assumes "r_get_database_session env = Inr ()" and "r_create_sync_record env = Inr ()"
      and cf: "r_commit_failure env = Inr ()" and cl: "r_session_close env = Inr ()"
  shows "returns_structured (full_sync aid env d)"
  using assms(1,2)
  by (simp add: full_sync_def finally_close_returns [OF cl] Let_def
           sync_failed_returns [OF cf] sync_succeeded_returns [OF cf]
           split: sum.split option.split prod.split)

lemma incremental_sync_returns:
  assumes "r_get_database_session env = Inr ()" and "r_create_sync_record env = Inr ()"
      and cf: "r_commit_failure env = Inr ()" and cl: "r_session_close env = Inr ()"
  shows "returns_structured (incremental_sync aid env d)"
  using assms(1,2)
  by (simp add: incremental_sync_def finally_close_returns [OF cl] Let_def
           sync_failed_returns [OF cf] sync_succeeded_returns [OF cf]
           split: sum.split option.split prod.split)

text \<open>
  C9, as the source has it. When the session opens and the in-progress record is
  created, and neither the commit of the failure record nor closing the session raises,
  \<open>full_sync\<close> and \<open>incremental_sync\<close> return a dictionary with status \<open>success\<close> and
  the counts or status \<open>failed\<close> and the error text, whatever the steps inside the
  \<open>try\<close> block do; the error text of a failed step is the message of its exception.
\<close>

theorem sync_returns_structured_result:
  assumes "r_get_database_session env = Inr ()" and "r_create_sync_record env = Inr ()"
      and "r_commit_failure env = Inr ()" and "r_session_close env = Inr ()"
  shows "returns_structured (full_sync aid env d)
         \<and> returns_structured (incremental_sync aid env d)
         \<and> (r_sync_athlete_profile env = Inl e \<longrightarrow>
              fst (full_sync aid env d) =
                Inr \<lparr>status = ''failed'', res_activities_synced = None, res_streams_synced = None,
                     res_duration_seconds = None, res_error = Some e\<rparr>)"
proof -
  have "fst (full_sync aid env d) =
          Inr \<lparr>status = ''failed'', res_activities_synced = None, res_streams_synced = None,
               res_duration_seconds = None, res_error = Some e\<rparr>"
    if "r_sync_athlete_profile env = Inl e"
    using that assms by (simp add: full_sync_def finally_close_def sync_failed_def Let_def)
  with full_sync_returns [OF assms] incremental_sync_returns [OF assms] show ?thesis by simp
qed

theorem sync_returns_structured_result_witness:
  "returns_structured
     (full_sync 7 ((remote_serving [ride_day1])\<lparr>r_sync_athlete_profile := Inl ''timeout''\<rparr>) empty_db)
   \<and> returns_structured
     (incremental_sync 7 ((remote_serving [ride_day1])\<lparr>r_sync_athlete_profile := Inl ''timeout''\<rparr>)
        empty_db)
   \<and> fst (full_sync 7 ((remote_serving [ride_day1])\<lparr>r_sync_athlete_profile := Inl ''timeout''\<rparr>)
            empty_db) =
       Inr \<lparr>status = ''failed'', res_activities_synced = None, res_streams_synced = None,
            res_duration_seconds = None, res_error = Some ''timeout''\<rparr>"
  using sync_returns_structured_result
          [where env = "(remote_serving [ride_day1])\<lparr>r_sync_athlete_profile := Inl ''timeout''\<rparr>"
             and e = "''timeout''" and aid = 7 and d = empty_db]
  by (simp add: remote_serving_def)

text \<open>
  C9 as stated fails when the in-progress record cannot be created: that statement
  stands before the \<open>try\<close> block, and its exception leaves \<open>full_sync\<close> and
  \<open>incremental_sync\<close>. Inside the block, an exception with an empty message gives a
  failed result whose error string is empty.
\<close>

theorem sync_exception_escapes_counterexample:
  "fst (full_sync 7 ((remote_serving [ride_day1])\<lparr>r_create_sync_record := Inl ''database is locked''\<rparr>)
          empty_db) = Inl ''database is locked''
   \<and> fst (incremental_sync 7
            ((remote_serving [ride_day1])\<lparr>r_create_sync_record := Inl ''database is locked''\<rparr>)
            empty_db) = Inl ''database is locked''
   \<and> \<not> returns_structured
         (full_sync 7 ((remote_serving [ride_day1])\<lparr>r_create_sync_record := Inl ''database is locked''\<rparr>)
            empty_db)
   \<and> fst (full_sync 7 ((remote_serving [ride_day1])\<lparr>r_sync_athlete_profile := Inl ''''\<rparr>) empty_db) =
       Inr \<lparr>status = ''failed'', res_activities_synced = None, res_streams_synced = None,
            res_duration_seconds = None, res_error = Some ''''\<rparr>"
  by (simp add: full_sync_def incremental_sync_def remote_serving_def returns_structured_def
        finally_close_def sync_failed_def Let_def)

end
